theory Spec2Isabelle
  imports Main "HOL-Library.Word"
begin

unbundle bit_operations_syntax

section \<open>The socket dispatcher of kernel/object/socket\_dispatcher.cpp\<close>

text \<open>
  A socket is a pair of \<open>SocketDispatcher\<close> objects that point at each other through
  \<open>other_\<close>. Every method of the source takes the lock of the object it works on for
  the whole of its critical section and never holds two locks, so the model runs each
  method as one step on a store that holds both objects. The store is indexed by the
  side of the pair; the reference \<open>other_\<close> is either null or the opposite side
  (\<open>Init\<close> is its only assignment), so it is kept as the flag "non-null". The members
  \<open>flags_\<close>, \<open>other_\<close>, \<open>data_\<close>, \<open>control_msg_\<close>, \<open>control_msg_len_\<close>,
  \<open>read_disabled_\<close> and \<open>accept_queue_\<close> are written without the final underscore,
  which HOL does not allow in a name.
  The members \<open>peer_koid_\<close>, \<open>canary_\<close> and \<open>lock_\<close> are left out: no method below
  reads the first, and the other two hold no state of the socket. \<open>CheckShareable\<close>
  changes nothing and is left out as well.
\<close>

subsection \<open>Status codes, flags and signal bits\<close>

type_synonym byte = "8 word"
type_synonym size_t = "64 word"
type_synonym zx_signals_t = "32 word"

datatype zx_status_t =
    ZX_OK
  | ZX_ERR_INVALID_ARGS
  | ZX_ERR_NO_MEMORY
  | ZX_ERR_PEER_CLOSED
  | ZX_ERR_BAD_STATE
  | ZX_ERR_SHOULD_WAIT
  | ZX_ERR_OUT_OF_RANGE
  | ZX_ERR_NOT_SUPPORTED

text \<open>
  Modelled from the spec: the header zircon/types.h with the values of the creation
  flags, the shutdown modes and the signal bits is missing. Section 6 of the spec gives
  \<open>DATAGRAM = 1<<0\<close>, \<open>HAS_CONTROL = 1<<1\<close>, \<open>HAS_ACCEPT = 1<<2\<close>,
  \<open>SHUTDOWN_READ = 1<<0\<close> and \<open>SHUTDOWN_WRITE = 1<<1\<close>. The signals are named there
  as distinct bits of one bitset, next to a reserved block of user signal bits; the
  positions below are those of the Zircon ABI (the object signals in the low 24 bits,
  the user signals in the top 8). Nothing proved below uses more than that the nine
  socket signals are distinct single bits outside the user block.
\<close>

definition ZX_SOCKET_DATAGRAM :: "32 word" where "ZX_SOCKET_DATAGRAM = push_bit 0 1"
definition ZX_SOCKET_HAS_CONTROL :: "32 word" where "ZX_SOCKET_HAS_CONTROL = push_bit 1 1"
definition ZX_SOCKET_HAS_ACCEPT :: "32 word" where "ZX_SOCKET_HAS_ACCEPT = push_bit 2 1"
definition ZX_SOCKET_CREATE_MASK :: "32 word" where
  "ZX_SOCKET_CREATE_MASK = ZX_SOCKET_DATAGRAM OR ZX_SOCKET_HAS_CONTROL OR ZX_SOCKET_HAS_ACCEPT"

definition ZX_SOCKET_SHUTDOWN_READ :: "32 word" where "ZX_SOCKET_SHUTDOWN_READ = push_bit 0 1"
definition ZX_SOCKET_SHUTDOWN_WRITE :: "32 word" where "ZX_SOCKET_SHUTDOWN_WRITE = push_bit 1 1"

definition ZX_SOCKET_READABLE :: zx_signals_t where "ZX_SOCKET_READABLE = push_bit 0 1"
definition ZX_SOCKET_WRITABLE :: zx_signals_t where "ZX_SOCKET_WRITABLE = push_bit 1 1"
definition ZX_SOCKET_PEER_CLOSED :: zx_signals_t where "ZX_SOCKET_PEER_CLOSED = push_bit 2 1"
definition ZX_SOCKET_READ_DISABLED :: zx_signals_t where "ZX_SOCKET_READ_DISABLED = push_bit 4 1"
definition ZX_SOCKET_WRITE_DISABLED :: zx_signals_t where "ZX_SOCKET_WRITE_DISABLED = push_bit 5 1"
definition ZX_SOCKET_CONTROL_READABLE :: zx_signals_t where
  "ZX_SOCKET_CONTROL_READABLE = push_bit 6 1"
definition ZX_SOCKET_CONTROL_WRITABLE :: zx_signals_t where
  "ZX_SOCKET_CONTROL_WRITABLE = push_bit 7 1"
definition ZX_SOCKET_ACCEPT :: zx_signals_t where "ZX_SOCKET_ACCEPT = push_bit 8 1"
definition ZX_SOCKET_SHARE :: zx_signals_t where "ZX_SOCKET_SHARE = push_bit 9 1"
definition ZX_USER_SIGNAL_ALL :: zx_signals_t where "ZX_USER_SIGNAL_ALL = 0xff000000"

text \<open>
  Modelled from the spec: \<open>kControlMsgSize\<close> is declared in the missing header
  object/socket\_dispatcher.h; section 6 gives \<open>CONTROL_MSG_MAX = 1024\<close> bytes.
\<close>

definition kControlMsgSize :: size_t where "kControlMsgSize = 1024"

subsection \<open>User memory\<close>

text \<open>
  Modelled from the spec: the kernel's \<open>user_in_ptr\<close> and \<open>user_out_ptr\<close> are missing
  (the stub under system/utest declares neither). Section 6 gives their contract:
  \<open>copy_array_from_user\<close> and \<open>copy_array_to_user\<close> return \<open>OK\<close> or fail. A pointer
  into user memory is modelled by what the copy can reach: for a source the bytes
  readable at the address, for a sink whether the pointer is null and how many bytes
  are writable at the address. A copy of \<open>count\<close> bytes succeeds iff that many bytes
  are there; a successful copy to the user yields the bytes that landed in user memory.
\<close>

datatype user_in_ptr = user_in_ptr (in_mem: "byte list")
datatype user_out_ptr = user_out_ptr (out_null: bool) (out_room: nat)

definition copy_array_from_user :: "user_in_ptr \<Rightarrow> nat \<Rightarrow> zx_status_t \<times> byte list" where
  "copy_array_from_user src count =
     (if count \<le> length (in_mem src) then (ZX_OK, take count (in_mem src))
      else (ZX_ERR_INVALID_ARGS, []))"

definition copy_array_to_user :: "user_out_ptr \<Rightarrow> byte list \<Rightarrow> nat \<Rightarrow> zx_status_t \<times> byte list" where
  "copy_array_to_user dst src count =
     (if count \<le> out_room dst then (ZX_OK, take count src) else (ZX_ERR_INVALID_ARGS, []))"

subsection \<open>The data pipeline\<close>

text \<open>
  The class \<open>MBufChain\<close> of the member \<open>data_\<close> is missing. The dispatcher only calls
  it, so its operations are a parameter of every method of the model: a record of
  functions over the chain's state \<open>'d\<close>. An operation that changes the chain in
  place returns the new chain next to its result. \<open>WriteStream\<close> and
  \<open>WriteDatagram\<close> return the status and the count stored through \<open>written\<close>;
  \<open>Read\<close> returns the count and the bytes copied to the user.
\<close>

record 'd MBufChain =
  mb_init :: 'd
  mb_WriteStream :: "'d \<Rightarrow> user_in_ptr \<Rightarrow> size_t \<Rightarrow> zx_status_t \<times> 'd \<times> size_t"
  mb_WriteDatagram :: "'d \<Rightarrow> user_in_ptr \<Rightarrow> size_t \<Rightarrow> zx_status_t \<times> 'd \<times> size_t"
  mb_Read :: "'d \<Rightarrow> user_out_ptr \<Rightarrow> size_t \<Rightarrow> bool \<Rightarrow> 'd \<times> size_t \<times> byte list"
  mb_size :: "'d \<Rightarrow> size_t"
  mb_is_full :: "'d \<Rightarrow> bool"
  mb_is_empty :: "'d \<Rightarrow> bool"

subsection \<open>The dispatcher object and the pair\<close>

type_synonym handle = nat

record 'd SocketDispatcher =
  signals :: zx_signals_t
  flags :: "32 word"
  other :: bool
  data :: 'd
  control_msg :: "byte list"
  control_msg_len :: "32 word"
  read_disabled :: bool
  accept_queue :: "handle option"

datatype side = E0 | E1

fun peer :: "side \<Rightarrow> side" where
  "peer E0 = E1"
| "peer E1 = E0"

type_synonym 'd socket_pair = "side \<Rightarrow> 'd SocketDispatcher"

text \<open>
  Modelled from the spec: \<open>Dispatcher::UpdateState\<close> and \<open>GetSignalsState\<close> belong to the
  missing base class. \<open>UpdateState(clear_mask, set_mask)\<close> clears the bits of the first
  mask in the signal word and then sets the bits of the second.
\<close>

definition UpdateState :: "zx_signals_t \<Rightarrow> zx_signals_t \<Rightarrow> 'd SocketDispatcher \<Rightarrow> 'd SocketDispatcher" where
  "UpdateState clear_mask set_mask sd =
     sd\<lparr>signals := (signals sd AND NOT clear_mask) OR set_mask\<rparr>"

definition GetSignalsState :: "'d SocketDispatcher \<Rightarrow> zx_signals_t" where
  "GetSignalsState sd = signals sd"

text \<open>
  Modelled from the spec: \<open>is_empty\<close> and \<open>is_full\<close> are inline members of the missing
  header; they report the state of the object's own inbound pipeline.
\<close>

definition is_empty :: "'d MBufChain \<Rightarrow> 'd SocketDispatcher \<Rightarrow> bool" where
  "is_empty mb sd = mb_is_empty mb (data sd)"

definition is_full :: "'d MBufChain \<Rightarrow> 'd SocketDispatcher \<Rightarrow> bool" where
  "is_full mb sd = mb_is_full mb (data sd)"

subsection \<open>Creation and teardown\<close>

text \<open>
  \<open>Create\<close>: \<open>alloc_ok\<close> says whether the allocations succeed. The control buffers are
  allocated only with \<open>HAS_CONTROL\<close>; their fresh content is taken to be zero bytes.
\<close>

definition SocketDispatcher_new ::
  "'d MBufChain \<Rightarrow> zx_signals_t \<Rightarrow> 32 word \<Rightarrow> byte list \<Rightarrow> 'd SocketDispatcher" where
  "SocketDispatcher_new mb starting_signals flags' control_msg' =
     \<lparr>signals = starting_signals, flags = flags', other = False, data = mb_init mb,
      control_msg = control_msg', control_msg_len = 0, read_disabled = False,
      accept_queue = None\<rparr>"

definition Init :: "'d SocketDispatcher \<Rightarrow> 'd SocketDispatcher" where
  "Init sd = sd\<lparr>other := True\<rparr>"

definition Create :: "'d MBufChain \<Rightarrow> bool \<Rightarrow> 32 word \<Rightarrow> zx_status_t \<times> 'd socket_pair option" where
  "Create mb alloc_ok flags' =
     (if flags' AND NOT ZX_SOCKET_CREATE_MASK \<noteq> 0 then (ZX_ERR_INVALID_ARGS, None)
      else
        let s0 = ZX_SOCKET_WRITABLE;
            s1 = (if flags' AND ZX_SOCKET_HAS_ACCEPT \<noteq> 0 then s0 OR ZX_SOCKET_SHARE else s0);
            has_control = (flags' AND ZX_SOCKET_HAS_CONTROL \<noteq> 0);
            starting_signals = (if has_control then s1 OR ZX_SOCKET_CONTROL_WRITABLE else s1);
            control = (if has_control then replicate (unat kControlMsgSize) 0 else [])
        in if \<not> alloc_ok then (ZX_ERR_NO_MEMORY, None)
           else
             let socket = Init (SocketDispatcher_new mb starting_signals flags' control)
             in (ZX_OK, Some (\<lambda>e. socket)))"

definition OnPeerZeroHandles :: "'d socket_pair \<Rightarrow> side \<Rightarrow> 'd socket_pair" where
  "OnPeerZeroHandles s e =
     s(e := UpdateState ZX_SOCKET_WRITABLE ZX_SOCKET_PEER_CLOSED ((s e)\<lparr>other := False\<rparr>))"

definition on_zero_handles :: "'d socket_pair \<Rightarrow> side \<Rightarrow> 'd socket_pair" where
  "on_zero_handles s e =
     (let socket = other (s e);
          s1 = s(e := (s e)\<lparr>other := False\<rparr>)
      in if \<not> socket then s1 else OnPeerZeroHandles s1 (peer e))"

subsection \<open>User signals\<close>

definition UserSignalSelf ::
  "'d socket_pair \<Rightarrow> side \<Rightarrow> 32 word \<Rightarrow> 32 word \<Rightarrow> zx_status_t \<times> 'd socket_pair" where
  "UserSignalSelf s e clear_mask set_mask = (ZX_OK, s(e := UpdateState clear_mask set_mask (s e)))"

definition user_signal ::
  "'d socket_pair \<Rightarrow> side \<Rightarrow> 32 word \<Rightarrow> 32 word \<Rightarrow> bool \<Rightarrow> zx_status_t \<times> 'd socket_pair" where
  "user_signal s e clear_mask set_mask to_peer =
     (if set_mask AND NOT ZX_USER_SIGNAL_ALL \<noteq> 0 \<or> clear_mask AND NOT ZX_USER_SIGNAL_ALL \<noteq> 0
      then (ZX_ERR_INVALID_ARGS, s)
      else if \<not> to_peer then (ZX_OK, s(e := UpdateState clear_mask set_mask (s e)))
      else if \<not> other (s e) then (ZX_ERR_PEER_CLOSED, s)
      else UserSignalSelf s (peer e) clear_mask set_mask)"

subsection \<open>Shutdown\<close>

definition ShutdownOther ::
  "'d MBufChain \<Rightarrow> 'd socket_pair \<Rightarrow> side \<Rightarrow> 32 word \<Rightarrow> zx_status_t \<times> 'd socket_pair" where
  "ShutdownOther mb s e how =
     (let shutdown_read = (how AND ZX_SOCKET_SHUTDOWN_READ \<noteq> 0);
          shutdown_write = (how AND ZX_SOCKET_SHUTDOWN_WRITE \<noteq> 0);
          clear_mask = (if shutdown_read then ZX_SOCKET_WRITABLE else 0);
          set_mask1 = (if shutdown_read then ZX_SOCKET_WRITE_DISABLED else 0);
          sd = (if shutdown_write then (s e)\<lparr>read_disabled := True\<rparr> else s e);
          set_mask = (if shutdown_write \<and> is_empty mb sd
                      then set_mask1 OR ZX_SOCKET_READ_DISABLED else set_mask1)
      in (ZX_OK, s(e := UpdateState clear_mask set_mask sd)))"

definition Shutdown ::
  "'d MBufChain \<Rightarrow> 'd socket_pair \<Rightarrow> side \<Rightarrow> 32 word \<Rightarrow> zx_status_t \<times> 'd socket_pair" where
  "Shutdown mb s e how =
     (let shutdown_read = (how AND ZX_SOCKET_SHUTDOWN_READ \<noteq> 0);
          shutdown_write = (how AND ZX_SOCKET_SHUTDOWN_WRITE \<noteq> 0);
          sigs = GetSignalsState (s e);
          want_signals = (if shutdown_read then ZX_SOCKET_READ_DISABLED else 0) OR
                         (if shutdown_write then ZX_SOCKET_WRITE_DISABLED else 0);
          have_signals = sigs AND (ZX_SOCKET_READ_DISABLED OR ZX_SOCKET_WRITE_DISABLED)
      in if want_signals = have_signals then (ZX_OK, s)
         else
           let other_ref = other (s e);
               sd = (if shutdown_read then (s e)\<lparr>read_disabled := True\<rparr> else s e);
               set_mask1 = (if shutdown_read \<and> is_empty mb sd then ZX_SOCKET_READ_DISABLED else 0);
               clear_mask = (if shutdown_write then ZX_SOCKET_WRITABLE else 0);
               set_mask = (if shutdown_write then set_mask1 OR ZX_SOCKET_WRITE_DISABLED
                           else set_mask1);
               s1 = s(e := UpdateState clear_mask set_mask sd)
           in if other_ref then ShutdownOther mb s1 (peer e) how else (ZX_OK, s1))"

subsection \<open>The write path\<close>

text \<open>
  \<open>WriteSelf\<close> runs on the object that receives the data. The count \<open>*written\<close> is
  \<open>None\<close> where the source returns without storing it.
\<close>

definition WriteSelf ::
  "'d MBufChain \<Rightarrow> 'd socket_pair \<Rightarrow> side \<Rightarrow> user_in_ptr \<Rightarrow> size_t \<Rightarrow>
   zx_status_t \<times> 'd socket_pair \<times> size_t option" where
  "WriteSelf mb s e src len =
     (if is_full mb (s e) then (ZX_ERR_SHOULD_WAIT, s, None)
      else
        let was_empty = is_empty mb (s e);
            (status, d, st) =
               (if flags (s e) AND ZX_SOCKET_DATAGRAM \<noteq> 0
                then mb_WriteDatagram mb (data (s e)) src len
                else mb_WriteStream mb (data (s e)) src len);
            s1 = s(e := (s e)\<lparr>data := d\<rparr>)
        in if status \<noteq> ZX_OK then (status, s1, None)
           else
             let s2 = (if 0 < st \<and> was_empty
                       then s1(e := UpdateState 0 ZX_SOCKET_READABLE (s1 e)) else s1);
                 s3 = (if other (s2 e) \<and> is_full mb (s2 e)
                       then s2(peer e := UpdateState ZX_SOCKET_WRITABLE 0 (s2 (peer e))) else s2)
             in (status, s3, Some st))"

definition Write ::
  "'d MBufChain \<Rightarrow> 'd socket_pair \<Rightarrow> side \<Rightarrow> user_in_ptr \<Rightarrow> size_t \<Rightarrow>
   zx_status_t \<times> 'd socket_pair \<times> size_t option" where
  "Write mb s e src len =
     (if \<not> other (s e) then (ZX_ERR_PEER_CLOSED, s, None)
      else if GetSignalsState (s e) AND ZX_SOCKET_WRITE_DISABLED \<noteq> 0
      then (ZX_ERR_BAD_STATE, s, None)
      else if len = 0 then (ZX_OK, s, Some 0)
      else if len \<noteq> ucast (ucast len :: 32 word) then (ZX_ERR_INVALID_ARGS, s, None)
      else WriteSelf mb s (peer e) src len)"

definition WriteControlSelf ::
  "'d socket_pair \<Rightarrow> side \<Rightarrow> user_in_ptr \<Rightarrow> size_t \<Rightarrow> zx_status_t \<times> 'd socket_pair" where
  "WriteControlSelf s e src len =
     (if control_msg_len (s e) \<noteq> 0 then (ZX_ERR_SHOULD_WAIT, s)
      else
        let (copied, bytes) = copy_array_from_user src (unat len)
        in if copied \<noteq> ZX_OK then (ZX_ERR_INVALID_ARGS, s)
           else
             let s1 = s(e := (s e)\<lparr>control_msg := bytes @ drop (unat len) (control_msg (s e)),
                                     control_msg_len := ucast len\<rparr>);
                 s2 = s1(e := UpdateState 0 ZX_SOCKET_CONTROL_READABLE (s1 e));
                 s3 = (if other (s2 e)
                       then s2(peer e := UpdateState ZX_SOCKET_CONTROL_WRITABLE 0 (s2 (peer e)))
                       else s2)
             in (ZX_OK, s3))"

definition WriteControl ::
  "'d socket_pair \<Rightarrow> side \<Rightarrow> user_in_ptr \<Rightarrow> size_t \<Rightarrow> zx_status_t \<times> 'd socket_pair" where
  "WriteControl s e src len =
     (if flags (s e) AND ZX_SOCKET_HAS_CONTROL = 0 then (ZX_ERR_BAD_STATE, s)
      else if len = 0 then (ZX_ERR_INVALID_ARGS, s)
      else if kControlMsgSize < len then (ZX_ERR_OUT_OF_RANGE, s)
      else if \<not> other (s e) then (ZX_ERR_PEER_CLOSED, s)
      else WriteControlSelf s (peer e) src len)"

subsection \<open>The read path\<close>

text \<open>
  The results are the status, the pair, \<open>*nread\<close> (\<open>None\<close> where the source does not
  store it) and the bytes copied to the user.
\<close>

definition Read ::
  "'d MBufChain \<Rightarrow> 'd socket_pair \<Rightarrow> side \<Rightarrow> user_out_ptr \<Rightarrow> size_t \<Rightarrow>
   zx_status_t \<times> 'd socket_pair \<times> size_t option \<times> byte list" where
  "Read mb s e dst len =
     (if out_null dst \<and> len = 0 then (ZX_OK, s, Some (mb_size mb (data (s e))), [])
      else if len \<noteq> ucast (ucast len :: 32 word) then (ZX_ERR_INVALID_ARGS, s, None, [])
      else if is_empty mb (s e) then
        (if \<not> other (s e) then (ZX_ERR_PEER_CLOSED, s, None, [])
         else if read_disabled (s e) then (ZX_ERR_BAD_STATE, s, None, [])
         else (ZX_ERR_SHOULD_WAIT, s, None, []))
      else
        let was_full = is_full mb (s e);
            (d, st, out) = mb_Read mb (data (s e)) dst len (flags (s e) AND ZX_SOCKET_DATAGRAM \<noteq> 0);
            s1 = s(e := (s e)\<lparr>data := d\<rparr>);
            s2 = (if is_empty mb (s1 e)
                  then s1(e := UpdateState ZX_SOCKET_READABLE
                                 (if read_disabled (s1 e) then ZX_SOCKET_READ_DISABLED else 0) (s1 e))
                  else s1);
            s3 = (if other (s2 e) \<and> was_full \<and> 0 < st
                  then s2(peer e := UpdateState 0 ZX_SOCKET_WRITABLE (s2 (peer e))) else s2)
        in (ZX_OK, s3, Some st, out))"

definition ReadControl ::
  "'d socket_pair \<Rightarrow> side \<Rightarrow> user_out_ptr \<Rightarrow> size_t \<Rightarrow>
   zx_status_t \<times> 'd socket_pair \<times> size_t option \<times> byte list" where
  "ReadControl s e dst len =
     (if flags (s e) AND ZX_SOCKET_HAS_CONTROL = 0 then (ZX_ERR_BAD_STATE, s, None, [])
      else if control_msg_len (s e) = 0 then (ZX_ERR_SHOULD_WAIT, s, None, [])
      else
        let copy_len = min (ucast (control_msg_len (s e))) len;
            (copied, out) = copy_array_to_user dst (control_msg (s e)) (unat copy_len)
        in if copied \<noteq> ZX_OK then (ZX_ERR_INVALID_ARGS, s, None, [])
           else
             let s1 = s(e := UpdateState ZX_SOCKET_CONTROL_READABLE 0 ((s e)\<lparr>control_msg_len := 0\<rparr>));
                 s2 = (if other (s1 e)
                       then s1(peer e := UpdateState 0 ZX_SOCKET_CONTROL_WRITABLE (s1 (peer e)))
                       else s1)
             in (ZX_OK, s2, Some copy_len, out))"

subsection \<open>The accept queue\<close>

definition ShareSelf :: "'d socket_pair \<Rightarrow> side \<Rightarrow> handle \<Rightarrow> zx_status_t \<times> 'd socket_pair" where
  "ShareSelf s e h =
     (if accept_queue (s e) \<noteq> None then (ZX_ERR_SHOULD_WAIT, s)
      else
        let s1 = s(e := UpdateState 0 ZX_SOCKET_ACCEPT ((s e)\<lparr>accept_queue := Some h\<rparr>));
            other_ref = other (s1 e)
        in (ZX_OK, if other_ref then s1(peer e := UpdateState ZX_SOCKET_SHARE 0 (s1 (peer e)))
                   else s1))"

definition Share :: "'d socket_pair \<Rightarrow> side \<Rightarrow> handle \<Rightarrow> zx_status_t \<times> 'd socket_pair" where
  "Share s e h =
     (if flags (s e) AND ZX_SOCKET_HAS_ACCEPT = 0 then (ZX_ERR_NOT_SUPPORTED, s)
      else if \<not> other (s e) then (ZX_ERR_PEER_CLOSED, s)
      else ShareSelf s (peer e) h)"

definition Accept :: "'d socket_pair \<Rightarrow> side \<Rightarrow> zx_status_t \<times> 'd socket_pair \<times> handle option" where
  "Accept s e =
     (if flags (s e) AND ZX_SOCKET_HAS_ACCEPT = 0 then (ZX_ERR_NOT_SUPPORTED, s, None)
      else if accept_queue (s e) = None then (ZX_ERR_SHOULD_WAIT, s, None)
      else
        let h = accept_queue (s e);
            s1 = s(e := UpdateState ZX_SOCKET_ACCEPT 0 ((s e)\<lparr>accept_queue := None\<rparr>));
            s2 = (if other (s1 e) then s1(peer e := UpdateState 0 ZX_SOCKET_SHARE (s1 (peer e)))
                  else s1)
        in (ZX_OK, s2, h))"

subsection \<open>Sequences of calls\<close>

text \<open>
  A call names the method and its arguments; \<open>step\<close> runs one call on one side of
  the pair and keeps the pair, \<open>run\<close> runs a sequence from left to right.
\<close>

datatype call =
    CallWrite user_in_ptr size_t
  | CallRead user_out_ptr size_t
  | CallWriteControl user_in_ptr size_t
  | CallReadControl user_out_ptr size_t
  | CallShutdown "32 word"
  | CallShare handle
  | CallAccept
  | CallUserSignal "32 word" "32 word" bool
  | CallZeroHandles

fun step :: "'d MBufChain \<Rightarrow> 'd socket_pair \<Rightarrow> side \<times> call \<Rightarrow> 'd socket_pair" where
  "step mb s (e, CallWrite src len) = fst (snd (Write mb s e src len))"
| "step mb s (e, CallRead dst len) = fst (snd (Read mb s e dst len))"
| "step mb s (e, CallWriteControl src len) = snd (WriteControl s e src len)"
| "step mb s (e, CallReadControl dst len) = fst (snd (ReadControl s e dst len))"
| "step mb s (e, CallShutdown how) = snd (Shutdown mb s e how)"
| "step mb s (e, CallShare h) = snd (Share s e h)"
| "step mb s (e, CallAccept) = fst (snd (Accept s e))"
| "step mb s (e, CallUserSignal clear_mask set_mask to_peer) =
     snd (user_signal s e clear_mask set_mask to_peer)"
| "step mb s (e, CallZeroHandles) = on_zero_handles s e"

definition run :: "'d MBufChain \<Rightarrow> 'd socket_pair \<Rightarrow> (side \<times> call) list \<Rightarrow> 'd socket_pair" where
  "run mb s cs = foldl (step mb) s cs"

subsection \<open>A pipeline after section 3 of the spec\<close>

text \<open>
  Modelled from the spec: \<open>MBufChain\<close> is missing; this instance follows section 3.
  The queue holds the payload bytes in order and, in datagram mode, the lengths of the
  queued frames; each frame costs its length and a 32-bit prefix. \<open>WriteStream\<close>
  appends as many bytes as fit and fails only when the queue is at capacity;
  \<open>WriteDatagram\<close> takes the whole frame when \<open>4 + len\<close> fits or refuses; a stream
  \<open>Read\<close> returns a prefix of the queued bytes, a datagram \<open>Read\<close> one frame cut to the
  caller's length, the rest of the frame dropped. A failed copy from the user gives
  \<open>INVALID_ARGS\<close> (section 4.2). The capacity is the spec's typical 256 KiB.
\<close>

definition BUF_MAX :: nat where "BUF_MAX = 262144"

record chain =
  bytes :: "byte list"
  frames :: "nat list"

definition chain_used :: "chain \<Rightarrow> nat" where
  "chain_used c = length (bytes c) + 4 * length (frames c)"

definition chain_WriteStream :: "chain \<Rightarrow> user_in_ptr \<Rightarrow> size_t \<Rightarrow> zx_status_t \<times> chain \<times> size_t" where
  "chain_WriteStream c src len =
     (if BUF_MAX \<le> chain_used c then (ZX_ERR_SHOULD_WAIT, c, 0)
      else
        let n = min (unat len) (BUF_MAX - chain_used c);
            (copied, bs) = copy_array_from_user src n
        in if copied \<noteq> ZX_OK then (ZX_ERR_INVALID_ARGS, c, 0)
           else (ZX_OK, c\<lparr>bytes := bytes c @ bs\<rparr>, of_nat n))"

definition chain_WriteDatagram :: "chain \<Rightarrow> user_in_ptr \<Rightarrow> size_t \<Rightarrow> zx_status_t \<times> chain \<times> size_t" where
  "chain_WriteDatagram c src len =
     (if BUF_MAX < chain_used c + 4 + unat len then (ZX_ERR_SHOULD_WAIT, c, 0)
      else
        let (copied, bs) = copy_array_from_user src (unat len)
        in if copied \<noteq> ZX_OK then (ZX_ERR_INVALID_ARGS, c, 0)
           else (ZX_OK, c\<lparr>bytes := bytes c @ bs, frames := frames c @ [unat len]\<rparr>, len))"

definition chain_Read :: "chain \<Rightarrow> user_out_ptr \<Rightarrow> size_t \<Rightarrow> bool \<Rightarrow> chain \<times> size_t \<times> byte list" where
  "chain_Read c dst len datagram =
     (if datagram then
        (case frames c of
           [] \<Rightarrow> (c, 0, [])
         | f # fs \<Rightarrow>
             let n = min (unat len) f
             in (c\<lparr>bytes := drop f (bytes c), frames := fs\<rparr>, of_nat n, take n (bytes c)))
      else
        let n = min (unat len) (length (bytes c))
        in (c\<lparr>bytes := drop n (bytes c)\<rparr>, of_nat n, take n (bytes c)))"

definition spec_chain :: "chain MBufChain" where
  "spec_chain =
     \<lparr>mb_init = \<lparr>bytes = [], frames = []\<rparr>,
      mb_WriteStream = chain_WriteStream,
      mb_WriteDatagram = chain_WriteDatagram,
      mb_Read = chain_Read,
      mb_size = (\<lambda>c. of_nat (length (bytes c))),
      mb_is_full = (\<lambda>c. BUF_MAX \<le> chain_used c),
      mb_is_empty = (\<lambda>c. bytes c = [] \<and> frames c = [])\<rparr>"

subsection \<open>Pairs as \<open>Create\<close> returns them\<close>

text \<open>
  The pair that \<open>Create\<close> returns for the flags \<open>0\<close> (a stream socket) and for
  \<open>HAS_CONTROL\<close>, over the pipeline above; the examples below start from them.
\<close>

definition stream_pair :: "chain socket_pair" where
  "stream_pair =
     (\<lambda>e. \<lparr>signals = ZX_SOCKET_WRITABLE, flags = 0, other = True,
           data = \<lparr>bytes = [], frames = []\<rparr>, control_msg = [], control_msg_len = 0,
           read_disabled = False, accept_queue = None\<rparr>)"

definition control_pair :: "chain socket_pair" where
  "control_pair =
     (\<lambda>e. \<lparr>signals = ZX_SOCKET_WRITABLE OR ZX_SOCKET_CONTROL_WRITABLE,
           flags = ZX_SOCKET_HAS_CONTROL, other = True,
           data = \<lparr>bytes = [], frames = []\<rparr>, control_msg = replicate 1024 0,
           control_msg_len = 0, read_disabled = False, accept_queue = None\<rparr>)"

text \<open>The control pair after \<open>E0\<close> has sent the three bytes 1, 2, 3 as a control message.\<close>

definition ctl_sent :: "chain socket_pair" where
  "ctl_sent = snd (WriteControl control_pair E0 (user_in_ptr [1, 2, 3]) 3)"

text \<open>
  The stream pair after \<open>E0.Shutdown(SHUTDOWN_WRITE)\<close>; a source buffer of \<open>BUF_MAX\<close>
  bytes, the stream pair after \<open>E0\<close> has written it (the inbound buffer of \<open>E1\<close> is
  full), that pair after \<open>E0.Shutdown(SHUTDOWN_WRITE)\<close>, and then after \<open>E1\<close> has read
  one byte.
\<close>

definition wd_pair :: "chain socket_pair" where
  "wd_pair =
     stream_pair
       (E0 := (stream_pair E0)\<lparr>signals := ZX_SOCKET_WRITE_DISABLED\<rparr>,
        E1 := (stream_pair E1)\<lparr>signals := ZX_SOCKET_WRITABLE OR ZX_SOCKET_READ_DISABLED,
                                  read_disabled := True\<rparr>)"

definition full_write :: user_in_ptr where
  "full_write = user_in_ptr (replicate 262144 0)"

definition full_pair :: "chain socket_pair" where
  "full_pair =
     stream_pair
       (E1 := (stream_pair E1)\<lparr>signals := ZX_SOCKET_WRITABLE OR ZX_SOCKET_READABLE,
                                 data := \<lparr>bytes = replicate 262144 0, frames = []\<rparr>\<rparr>,
        E0 := (stream_pair E0)\<lparr>signals := 0\<rparr>)"

definition full_wd_pair :: "chain socket_pair" where
  "full_wd_pair =
     full_pair
       (E0 := (full_pair E0)\<lparr>signals := ZX_SOCKET_WRITE_DISABLED\<rparr>,
        E1 := (full_pair E1)\<lparr>read_disabled := True\<rparr>)"

definition drained_pair :: "chain socket_pair" where
  "drained_pair =
     full_wd_pair
       (E1 := (full_wd_pair E1)\<lparr>data := \<lparr>bytes = replicate 262143 0, frames = []\<rparr>\<rparr>,
        E0 := (full_wd_pair E0)\<lparr>signals := ZX_SOCKET_WRITE_DISABLED OR ZX_SOCKET_WRITABLE\<rparr>)"

section \<open>Properties\<close>

subsection \<open>Auxiliary facts\<close>

lemmas sig_defs = ZX_SOCKET_READABLE_def ZX_SOCKET_WRITABLE_def ZX_SOCKET_PEER_CLOSED_def
  ZX_SOCKET_READ_DISABLED_def ZX_SOCKET_WRITE_DISABLED_def ZX_SOCKET_CONTROL_READABLE_def
  ZX_SOCKET_CONTROL_WRITABLE_def ZX_SOCKET_ACCEPT_def ZX_SOCKET_SHARE_def

lemmas flag_defs = ZX_SOCKET_DATAGRAM_def ZX_SOCKET_HAS_CONTROL_def ZX_SOCKET_HAS_ACCEPT_def
  ZX_SOCKET_SHUTDOWN_READ_def ZX_SOCKET_SHUTDOWN_WRITE_def

lemma Create_stream_pair: "Create spec_chain True 0 = (ZX_OK, Some stream_pair)"
  by (simp add: Create_def stream_pair_def SocketDispatcher_new_def Init_def spec_chain_def
      ZX_SOCKET_HAS_ACCEPT_def ZX_SOCKET_HAS_CONTROL_def Let_def)

lemma Create_control_pair:
  "Create spec_chain True ZX_SOCKET_HAS_CONTROL = (ZX_OK, Some control_pair)"
  by (simp add: Create_def control_pair_def SocketDispatcher_new_def Init_def spec_chain_def
      ZX_SOCKET_CREATE_MASK_def kControlMsgSize_def sig_defs flag_defs Let_def)

text \<open>The test \<open>len != (size_t)(uint32_t)len\<close> of \<open>Write\<close> and \<open>Read\<close>.\<close>

lemma ucast_32_64: "(ucast (ucast len :: 32 word) :: 64 word) = take_bit 32 len"
  for len :: "64 word"
  by (simp add: unsigned_ucast_eq)

lemma fits_32_iff: "(len = ucast (ucast len :: 32 word)) = (unat len < 2 ^ 32)"
  for len :: "64 word"
proof -
  have "(take_bit 32 len = len) = (unat (take_bit 32 len) = unat len)"
    by (simp add: word_unat_eq_iff)
  also have "\<dots> = (unat len < 2 ^ 32)"
    by (simp add: unsigned_take_bit_eq take_bit_nat_eq_self_iff)
  finally show ?thesis by (auto simp add: ucast_32_64)
qed

text \<open>The fields that \<open>UpdateState\<close> leaves alone, and the two sides of a pair.\<close>

lemma signals_UpdateState [simp]:
  "signals (UpdateState c t sd) = (signals sd AND NOT c) OR t"
  by (simp add: UpdateState_def)

lemma UpdateState_other_fields [simp]:
  "flags (UpdateState c t sd) = flags sd"
  "other (UpdateState c t sd) = other sd"
  "data (UpdateState c t sd) = data sd"
  "control_msg (UpdateState c t sd) = control_msg sd"
  "control_msg_len (UpdateState c t sd) = control_msg_len sd"
  "read_disabled (UpdateState c t sd) = read_disabled sd"
  "accept_queue (UpdateState c t sd) = accept_queue sd"
  by (simp_all add: UpdateState_def)

lemma peer_neq [simp]: "peer e \<noteq> e" "e \<noteq> peer e"
  by (cases e; simp)+

lemma peer_peer [simp]: "peer (peer e) = e"
  by (cases e) simp_all

text \<open>Signal tests of the form \<open>signals & FLAG\<close> read one bit of the signal word.\<close>

lemma test_bit0: "(x AND push_bit k 1 = 0) = (\<not> bit x k)" for x :: "'a::len word"
  by (simp add: and_exp_eq_0_iff_not_bit)

lemma bit_sigs:
  "bit ZX_SOCKET_READABLE n = (n = 0)"
  "bit ZX_SOCKET_WRITABLE n = (n = 1)"
  "bit ZX_SOCKET_PEER_CLOSED n = (n = 2)"
  "bit ZX_SOCKET_READ_DISABLED n = (n = 4)"
  "bit ZX_SOCKET_WRITE_DISABLED n = (n = 5)"
  "bit ZX_SOCKET_CONTROL_READABLE n = (n = 6)"
  "bit ZX_SOCKET_CONTROL_WRITABLE n = (n = 7)"
  "bit ZX_SOCKET_ACCEPT n = (n = 8)"
  "bit ZX_SOCKET_SHARE n = (n = 9)"
  unfolding sig_defs by (auto simp add: bit_simps simp del: push_bit_of_1)

lemma test_sigs:
  "(x AND ZX_SOCKET_READABLE = 0) = (\<not> bit x 0)"
  "(x AND ZX_SOCKET_WRITABLE = 0) = (\<not> bit x 1)"
  "(x AND ZX_SOCKET_PEER_CLOSED = 0) = (\<not> bit x 2)"
  "(x AND ZX_SOCKET_READ_DISABLED = 0) = (\<not> bit x 4)"
  "(x AND ZX_SOCKET_WRITE_DISABLED = 0) = (\<not> bit x 5)"
  "(x AND ZX_SOCKET_CONTROL_READABLE = 0) = (\<not> bit x 6)"
  "(x AND ZX_SOCKET_CONTROL_WRITABLE = 0) = (\<not> bit x 7)"
  "(x AND ZX_SOCKET_ACCEPT = 0) = (\<not> bit x 8)"
  "(x AND ZX_SOCKET_SHARE = 0) = (\<not> bit x 9)"
  unfolding sig_defs by (rule test_bit0)+

text \<open>An update whose masks avoid the bits of \<open>m\<close> leaves those bits as they were.\<close>

lemma masked_update:
  fixes x :: "32 word"
  assumes "c AND m = 0" and "t AND m = 0"
  shows "((x AND NOT c) OR t) AND m = x AND m"
proof (rule bit_eqI)
  fix n
  from assms have "\<not> (bit c n \<and> bit m n)" "\<not> (bit t n \<and> bit m n)"
    by (metis bit_and_iff bit_0_eq bot_apply bot_bool_def)+
  then show "bit (((x AND NOT c) OR t) AND m) n = bit (x AND m) n"
    by (auto simp add: bit_simps dest: bit_imp_le_length)
qed

lemma masked_clear: "c AND m = 0 \<Longrightarrow> (x AND NOT c) AND m = x AND m" for x :: "32 word"
  using masked_update [of c m 0 x] by simp

lemma masked_set: "t AND m = 0 \<Longrightarrow> (x OR t) AND m = x AND m" for x :: "32 word"
  using masked_update [of 0 m t x] by simp

lemmas masked = masked_update masked_clear masked_set

lemma control_masks_avoid_data:
  "ZX_SOCKET_CONTROL_READABLE AND
     (ZX_SOCKET_READABLE OR ZX_SOCKET_WRITABLE OR ZX_SOCKET_READ_DISABLED OR
      ZX_SOCKET_WRITE_DISABLED) = 0"
  "ZX_SOCKET_CONTROL_WRITABLE AND
     (ZX_SOCKET_READABLE OR ZX_SOCKET_WRITABLE OR ZX_SOCKET_READ_DISABLED OR
      ZX_SOCKET_WRITE_DISABLED) = 0"
  by (simp_all add: sig_defs)

lemma data_masks_avoid_control:
  "ZX_SOCKET_READABLE AND (ZX_SOCKET_CONTROL_READABLE OR ZX_SOCKET_CONTROL_WRITABLE) = 0"
  "ZX_SOCKET_WRITABLE AND (ZX_SOCKET_CONTROL_READABLE OR ZX_SOCKET_CONTROL_WRITABLE) = 0"
  "ZX_SOCKET_READ_DISABLED AND (ZX_SOCKET_CONTROL_READABLE OR ZX_SOCKET_CONTROL_WRITABLE) = 0"
  "ZX_SOCKET_WRITE_DISABLED AND (ZX_SOCKET_CONTROL_READABLE OR ZX_SOCKET_CONTROL_WRITABLE) = 0"
  by (simp_all add: sig_defs)

text \<open>The user signals are the top eight bits.\<close>

lemma user_all: "ZX_USER_SIGNAL_ALL = push_bit 24 (mask 8)"
  by (simp add: ZX_USER_SIGNAL_ALL_def mask_eq_exp_minus_1)

lemma bit_user_all: "bit ZX_USER_SIGNAL_ALL n = (24 \<le> n \<and> n < 32)"
  by (auto simp add: user_all bit_simps)

lemma user_mask_low_bits:
  fixes m :: "32 word"
  assumes "m AND NOT ZX_USER_SIGNAL_ALL = 0" and "n < 24"
  shows "\<not> bit m n"
proof
  assume "bit m n"
  with assms(2) have "bit (m AND NOT ZX_USER_SIGNAL_ALL) n"
    by (simp add: bit_simps bit_user_all)
  with assms(1) show False by simp
qed

text \<open>\<open>MIN(control_msg_len_, len)\<close> never exceeds the length of the message.\<close>

lemma unat_min_ucast_le:
  "unat (min (ucast m) len) \<le> unat m" for m :: "32 word" and len :: "64 word"
proof -
  have "min (ucast m) len \<le> (ucast m :: 64 word)" by simp
  then have "unat (min (ucast m) len) \<le> unat (ucast m :: 64 word)"
    by (simp only: word_le_nat_alt)
  also have "\<dots> \<le> unat m"
    by (simp add: unsigned_ucast_eq take_bit_nat_less_eq_self)
  finally show ?thesis .
qed

text \<open>The receiving side of \<open>ctl_sent\<close>.\<close>

lemma ctl_sent_E1:
  "ctl_sent E1 = (control_pair E1)
     \<lparr>signals := ZX_SOCKET_WRITABLE OR ZX_SOCKET_CONTROL_WRITABLE OR ZX_SOCKET_CONTROL_READABLE,
      control_msg := [1, 2, 3] @ replicate 1021 0, control_msg_len := 3\<rparr>"
  by (simp add: ctl_sent_def WriteControl_def WriteControlSelf_def control_pair_def
      copy_array_from_user_def kControlMsgSize_def sig_defs flag_defs UpdateState_def Let_def)

lemma ctl_sent_E0:
  "ctl_sent E0 = (control_pair E0)\<lparr>signals := ZX_SOCKET_WRITABLE\<rparr>"
  by (simp add: ctl_sent_def WriteControl_def WriteControlSelf_def control_pair_def
      copy_array_from_user_def kControlMsgSize_def sig_defs flag_defs UpdateState_def Let_def)

text \<open>A length that passed the test against \<open>kControlMsgSize\<close> fits \<open>control_msg_len_\<close>.\<close>

lemma unat_ucast_control_len:
  "len \<le> kControlMsgSize \<Longrightarrow> unat (ucast len :: 32 word) = unat len" for len :: "64 word"
proof -
  assume "len \<le> kControlMsgSize"
  then have "unat len \<le> 1024"
    by (simp add: kControlMsgSize_def word_le_nat_alt)
  then have "unat len < 2 ^ 32" by simp
  then show ?thesis
    by (simp add: unsigned_ucast_eq take_bit_nat_eq_self)
qed

text \<open>
  The two references \<open>other_\<close> of a pair are set together by \<open>Create\<close> and cleared
  together by \<open>on_zero_handles\<close>; no other method assigns them.
\<close>

lemma Create_linked:
  "Create mb alloc_ok flags' = (ZX_OK, Some s) \<Longrightarrow> other (s E0) \<and> other (s E1)"
  by (auto simp add: Create_def Init_def Let_def split: if_splits)

lemma step_keeps_linked:
  "other (s E0) = other (s E1) \<Longrightarrow> other (step mb s c E0) = other (step mb s c E1)"
proof (cases c)
  case (Pair e call)
  assume "other (s E0) = other (s E1)"
  then show ?thesis
    unfolding Pair
    by (cases call; cases e)
      (auto simp add: Write_def WriteSelf_def Read_def WriteControl_def WriteControlSelf_def
        ReadControl_def Shutdown_def ShutdownOther_def Share_def ShareSelf_def Accept_def
        user_signal_def UserSignalSelf_def on_zero_handles_def OnPeerZeroHandles_def
        Let_def case_prod_beta)
qed

lemma run_keeps_linked:
  "other (s E0) = other (s E1) \<Longrightarrow> other (run mb s cs E0) = other (run mb s cs E1)"
  unfolding run_def
  by (induction cs arbitrary: s) (simp_all add: step_keeps_linked)

subsection \<open>The order of the checks of \<open>Write\<close>\<close>

text \<open>
  C2: \<open>Write(src, len)\<close> returns \<open>PEER_CLOSED\<close> when the peer is null; otherwise
  \<open>BAD_STATE\<close> when \<open>WRITE_DISABLED\<close> is set on this endpoint; otherwise, when \<open>len\<close> is
  0, it stores 0 in \<open>nwritten\<close>, returns \<open>OK\<close> and leaves the pair as it was; otherwise
  \<open>INVALID_ARGS\<close> when \<open>len\<close> does not fit in 32 bits; and only then does it hand the
  call to the peer's \<open>WriteSelf\<close>. Each case assumes that the earlier checks passed,
  so the order is the one given; the first case holds for every length, also 0.
\<close>

theorem Write_checks_in_order:
  "(\<not> other (s e) \<longrightarrow> Write mb s e src len = (ZX_ERR_PEER_CLOSED, s, None)) \<and>
   (other (s e) \<and> signals (s e) AND ZX_SOCKET_WRITE_DISABLED \<noteq> 0 \<longrightarrow>
      Write mb s e src len = (ZX_ERR_BAD_STATE, s, None)) \<and>
   (other (s e) \<and> signals (s e) AND ZX_SOCKET_WRITE_DISABLED = 0 \<and> len = 0 \<longrightarrow>
      Write mb s e src len = (ZX_OK, s, Some 0)) \<and>
   (other (s e) \<and> signals (s e) AND ZX_SOCKET_WRITE_DISABLED = 0 \<and> len \<noteq> 0 \<and>
      2 ^ 32 \<le> unat len \<longrightarrow>
      Write mb s e src len = (ZX_ERR_INVALID_ARGS, s, None)) \<and>
   (other (s e) \<and> signals (s e) AND ZX_SOCKET_WRITE_DISABLED = 0 \<and> len \<noteq> 0 \<and>
      unat len < 2 ^ 32 \<longrightarrow>
      Write mb s e src len = WriteSelf mb s (peer e) src len)"
  by (simp add: Write_def GetSignalsState_def fits_32_iff)

text \<open>
  The five cases on a stream pair: a zero-length write after the peer has dropped its
  handles, a write after \<open>Shutdown(WRITE)\<close>, a zero-length write, a write of \<open>2^32\<close>
  bytes and a write of one byte.
\<close>

theorem Write_checks_in_order_witness:
  "Write spec_chain (on_zero_handles stream_pair E0) E1 (user_in_ptr []) 0 =
     (ZX_ERR_PEER_CLOSED, on_zero_handles stream_pair E0, None) \<and>
   Write spec_chain (snd (Shutdown spec_chain stream_pair E0 ZX_SOCKET_SHUTDOWN_WRITE)) E0
       (user_in_ptr [7]) 1 =
     (ZX_ERR_BAD_STATE, snd (Shutdown spec_chain stream_pair E0 ZX_SOCKET_SHUTDOWN_WRITE), None) \<and>
   Write spec_chain stream_pair E0 (user_in_ptr []) 0 = (ZX_OK, stream_pair, Some 0) \<and>
   Write spec_chain stream_pair E0 (user_in_ptr [7]) 4294967296 =
     (ZX_ERR_INVALID_ARGS, stream_pair, None) \<and>
   Write spec_chain stream_pair E0 (user_in_ptr [7]) 1 =
     WriteSelf spec_chain stream_pair E1 (user_in_ptr [7]) 1"
  using Write_checks_in_order [of "on_zero_handles stream_pair E0" E1 spec_chain "user_in_ptr []" 0]
    Write_checks_in_order [of "snd (Shutdown spec_chain stream_pair E0 ZX_SOCKET_SHUTDOWN_WRITE)"
      E0 spec_chain "user_in_ptr [7]" 1]
    Write_checks_in_order [of stream_pair E0 spec_chain "user_in_ptr []" 0]
    Write_checks_in_order [of stream_pair E0 spec_chain "user_in_ptr [7]" 4294967296]
    Write_checks_in_order [of stream_pair E0 spec_chain "user_in_ptr [7]" 1]
  by (simp add: on_zero_handles_def OnPeerZeroHandles_def UpdateState_def stream_pair_def
      Shutdown_def ShutdownOther_def GetSignalsState_def is_empty_def spec_chain_def
      sig_defs flag_defs Let_def)

subsection \<open>The query form of \<open>Read\<close>\<close>

text \<open>
  C6: \<open>Read(dst, len)\<close> with a null \<open>dst\<close> and \<open>len = 0\<close> is a query: on every pair and
  every pipeline it returns \<open>OK\<close> with \<open>nread = data_.size()\<close>, copies nothing and
  leaves the pair (both buffers and all signals) as it was. It does so on an endpoint
  that is empty and whose peer has dropped its handles: there it returns 0 with \<open>OK\<close>,
  not \<open>PEER_CLOSED\<close> (shown on the stream pair after \<open>E0\<close> is gone).
\<close>

theorem Read_query:
  "Read mb s e (user_out_ptr True room) 0 = (ZX_OK, s, Some (mb_size mb (data (s e))), []) \<and>
   is_empty spec_chain (on_zero_handles stream_pair E0 E1) \<and>
   \<not> other (on_zero_handles stream_pair E0 E1) \<and>
   Read spec_chain (on_zero_handles stream_pair E0) E1 (user_out_ptr True 0) 0 =
     (ZX_OK, on_zero_handles stream_pair E0, Some 0, [])"
  by (simp add: Read_def is_empty_def spec_chain_def on_zero_handles_def OnPeerZeroHandles_def
      stream_pair_def)

subsection \<open>\<open>ReadControl\<close>\<close>

text \<open>
  C9: \<open>ReadControl\<close> on an endpoint with \<open>HAS_CONTROL\<close> and an occupied control slot,
  when the copy to the caller's buffer fails, returns \<open>INVALID_ARGS\<close> and leaves the
  pair as it was: the slot holds the same message of the same length and no signal of
  either endpoint has changed.
\<close>

theorem ReadControl_copy_failure:
  "flags (s e) AND ZX_SOCKET_HAS_CONTROL \<noteq> 0 \<Longrightarrow> control_msg_len (s e) \<noteq> 0 \<Longrightarrow>
   fst (copy_array_to_user dst (control_msg (s e))
          (unat (min (ucast (control_msg_len (s e))) len))) \<noteq> ZX_OK \<Longrightarrow>
   ReadControl s e dst len = (ZX_ERR_INVALID_ARGS, s, None, [])"
  by (simp add: ReadControl_def Let_def case_prod_beta)

text \<open>A three-byte message read into a buffer with no writable byte.\<close>

theorem ReadControl_copy_failure_witness:
  "control_msg_len (ctl_sent E1) = 3 \<and>
   ReadControl ctl_sent E1 (user_out_ptr False 0) 3 = (ZX_ERR_INVALID_ARGS, ctl_sent, None, [])"
  using ReadControl_copy_failure [of ctl_sent E1 "user_out_ptr False 0" 3]
  by (simp add: ctl_sent_E1 control_pair_def copy_array_to_user_def flag_defs)

text \<open>
  C4, as the claim states it, fails: a call on an endpoint with \<open>HAS_CONTROL\<close> and a
  message of length 3 in the slot, with a buffer that cannot be written, returns
  \<open>INVALID_ARGS\<close>, not \<open>OK\<close>, and the slot keeps its message.
\<close>

theorem ReadControl_bad_buffer_counterexample:
  "flags (ctl_sent E1) AND ZX_SOCKET_HAS_CONTROL \<noteq> 0 \<and> control_msg_len (ctl_sent E1) = 3 \<and>
   fst (ReadControl ctl_sent E1 (user_out_ptr False 0) 3) = ZX_ERR_INVALID_ARGS \<and>
   control_msg_len (fst (snd (ReadControl ctl_sent E1 (user_out_ptr False 0) 3)) E1) = 3"
  by (simp add: ReadControl_def ctl_sent_E1 control_pair_def copy_array_to_user_def flag_defs)

text \<open>
  C4, amended: without \<open>HAS_CONTROL\<close> \<open>ReadControl\<close> returns \<open>BAD_STATE\<close>; with an empty
  slot it returns \<open>SHOULD_WAIT\<close>; with a message of length \<open>m > 0\<close> in the slot, and when
  the copy of \<open>min(m, len)\<close> bytes to the caller's buffer succeeds, it returns \<open>OK\<close> with
  \<open>nread = min(m, len)\<close>, the caller receives the first \<open>min(m, len)\<close> bytes of the
  message (exactly that many, the message lying inside the buffer), the slot is empty
  whatever \<open>len\<close> was, \<open>CONTROL_READABLE\<close> is clear on this endpoint,
  \<open>CONTROL_WRITABLE\<close> is set on the peer when this endpoint still refers to it, and the
  next \<open>ReadControl\<close> returns \<open>SHOULD_WAIT\<close>.
\<close>

theorem ReadControl_drains:
  "(flags (s e) AND ZX_SOCKET_HAS_CONTROL = 0 \<longrightarrow>
      ReadControl s e dst len = (ZX_ERR_BAD_STATE, s, None, [])) \<and>
   (flags (s e) AND ZX_SOCKET_HAS_CONTROL \<noteq> 0 \<and> control_msg_len (s e) = 0 \<longrightarrow>
      ReadControl s e dst len = (ZX_ERR_SHOULD_WAIT, s, None, [])) \<and>
   (flags (s e) AND ZX_SOCKET_HAS_CONTROL \<noteq> 0 \<and> control_msg_len (s e) \<noteq> 0 \<and>
    fst (copy_array_to_user dst (control_msg (s e))
           (unat (min (ucast (control_msg_len (s e))) len))) = ZX_OK \<longrightarrow>
      (case ReadControl s e dst len of
         (status, s', nread, out) \<Rightarrow>
           status = ZX_OK \<and>
           nread = Some (min (ucast (control_msg_len (s e))) len) \<and>
           out = take (unat (min (ucast (control_msg_len (s e))) len)) (control_msg (s e)) \<and>
           (unat (control_msg_len (s e)) \<le> length (control_msg (s e)) \<longrightarrow>
              length out = unat (min (ucast (control_msg_len (s e))) len)) \<and>
           control_msg_len (s' e) = 0 \<and>
           signals (s' e) AND ZX_SOCKET_CONTROL_READABLE = 0 \<and>
           (other (s e) \<longrightarrow> signals (s' (peer e)) AND ZX_SOCKET_CONTROL_WRITABLE \<noteq> 0) \<and>
           (\<forall>dst' len'. ReadControl s' e dst' len' = (ZX_ERR_SHOULD_WAIT, s', None, []))))"
proof (intro conjI impI)
  show "ReadControl s e dst len = (ZX_ERR_BAD_STATE, s, None, [])"
    if "flags (s e) AND ZX_SOCKET_HAS_CONTROL = 0"
    using that by (simp add: ReadControl_def)
  show "ReadControl s e dst len = (ZX_ERR_SHOULD_WAIT, s, None, [])"
    if "flags (s e) AND ZX_SOCKET_HAS_CONTROL \<noteq> 0 \<and> control_msg_len (s e) = 0"
    using that by (simp add: ReadControl_def)
next
  let ?n = "min (ucast (control_msg_len (s e))) len"
  assume a: "flags (s e) AND ZX_SOCKET_HAS_CONTROL \<noteq> 0 \<and> control_msg_len (s e) \<noteq> 0 \<and>
    fst (copy_array_to_user dst (control_msg (s e)) (unat ?n)) = ZX_OK"
  then have copy: "copy_array_to_user dst (control_msg (s e)) (unat ?n) =
      (ZX_OK, take (unat ?n) (control_msg (s e)))"
    by (simp add: copy_array_to_user_def split: if_splits)
  have len: "unat ?n \<le> unat (control_msg_len (s e))"
    by (rule unat_min_ucast_le)
  from a copy len show "case ReadControl s e dst len of
         (status, s', nread, out) \<Rightarrow>
           status = ZX_OK \<and>
           nread = Some ?n \<and>
           out = take (unat ?n) (control_msg (s e)) \<and>
           (unat (control_msg_len (s e)) \<le> length (control_msg (s e)) \<longrightarrow>
              length out = unat ?n) \<and>
           control_msg_len (s' e) = 0 \<and>
           signals (s' e) AND ZX_SOCKET_CONTROL_READABLE = 0 \<and>
           (other (s e) \<longrightarrow> signals (s' (peer e)) AND ZX_SOCKET_CONTROL_WRITABLE \<noteq> 0) \<and>
           (\<forall>dst' len'. ReadControl s' e dst' len' = (ZX_ERR_SHOULD_WAIT, s', None, []))"
    by (simp add: ReadControl_def Let_def test_sigs bit_sigs bit_simps)
qed

text \<open>
  A stream endpoint, an endpoint with an empty slot, and the three-byte message read
  with \<open>len = 2\<close>: two bytes arrive and the slot is empty.
\<close>

theorem ReadControl_drains_witness:
  "ReadControl stream_pair E0 (user_out_ptr False 4) 2 = (ZX_ERR_BAD_STATE, stream_pair, None, []) \<and>
   ReadControl control_pair E0 (user_out_ptr False 4) 2 =
     (ZX_ERR_SHOULD_WAIT, control_pair, None, []) \<and>
   (case ReadControl ctl_sent E1 (user_out_ptr False 4) 2 of
      (status, s', nread, out) \<Rightarrow>
        status = ZX_OK \<and> nread = Some 2 \<and> out = [1, 2] \<and> control_msg_len (s' E1) = 0 \<and>
        signals (s' E1) AND ZX_SOCKET_CONTROL_READABLE = 0 \<and>
        signals (s' E0) AND ZX_SOCKET_CONTROL_WRITABLE \<noteq> 0 \<and>
        ReadControl s' E1 (user_out_ptr False 4) 2 = (ZX_ERR_SHOULD_WAIT, s', None, []))"
  using ReadControl_drains [of stream_pair E0 "user_out_ptr False 4" 2]
    ReadControl_drains [of control_pair E0 "user_out_ptr False 4" 2]
    ReadControl_drains [of ctl_sent E1 "user_out_ptr False 4" 2]
  by (simp add: ctl_sent_E1 stream_pair_def control_pair_def copy_array_to_user_def flag_defs
      split: prod.splits)

subsection \<open>User signals\<close>

text \<open>
  C10: \<open>user_signal(clear_mask, set_mask, peer = false)\<close> with both masks inside the
  user signal bits returns \<open>OK\<close> and applies the masks to the signals of this endpoint,
  whether or not the peer is still there; \<open>PEER_CLOSED\<close> is returned only for
  \<open>peer = true\<close> with a null peer (and is returned then, for masks in range); a mask
  with a bit outside the user signals gives \<open>INVALID_ARGS\<close> and no change.
\<close>

theorem user_signal_self:
  "(set_mask AND NOT ZX_USER_SIGNAL_ALL = 0 \<and> clear_mask AND NOT ZX_USER_SIGNAL_ALL = 0 \<longrightarrow>
      user_signal s e clear_mask set_mask False =
        (ZX_OK, s(e := (s e)\<lparr>signals := (signals (s e) AND NOT clear_mask) OR set_mask\<rparr>))) \<and>
   (fst (user_signal s e clear_mask set_mask to_peer) = ZX_ERR_PEER_CLOSED \<longrightarrow>
      to_peer \<and> \<not> other (s e)) \<and>
   (set_mask AND NOT ZX_USER_SIGNAL_ALL = 0 \<and> clear_mask AND NOT ZX_USER_SIGNAL_ALL = 0 \<and>
      to_peer \<and> \<not> other (s e) \<longrightarrow>
      user_signal s e clear_mask set_mask to_peer = (ZX_ERR_PEER_CLOSED, s)) \<and>
   (set_mask AND NOT ZX_USER_SIGNAL_ALL \<noteq> 0 \<or> clear_mask AND NOT ZX_USER_SIGNAL_ALL \<noteq> 0 \<longrightarrow>
      user_signal s e clear_mask set_mask to_peer = (ZX_ERR_INVALID_ARGS, s))"
  by (simp add: user_signal_def UserSignalSelf_def UpdateState_def)

text \<open>
  On \<open>E1\<close> after \<open>E0\<close> has dropped its handles: a user signal set on \<open>E1\<close> itself, the
  same call for the peer, and a call that names \<open>WRITABLE\<close>.
\<close>

theorem user_signal_self_witness:
  "user_signal (on_zero_handles stream_pair E0) E1 0x01000000 0x02000000 False =
     (ZX_OK, (on_zero_handles stream_pair E0)
        (E1 := (on_zero_handles stream_pair E0 E1)\<lparr>signals := 0x02000004\<rparr>)) \<and>
   \<not> other (on_zero_handles stream_pair E0 E1) \<and>
   user_signal (on_zero_handles stream_pair E0) E1 0x01000000 0x02000000 True =
     (ZX_ERR_PEER_CLOSED, on_zero_handles stream_pair E0) \<and>
   user_signal stream_pair E0 0 (ZX_SOCKET_WRITABLE) False = (ZX_ERR_INVALID_ARGS, stream_pair)"
  using user_signal_self [where set_mask = "0x02000000" and clear_mask = "0x01000000"
      and s = "on_zero_handles stream_pair E0" and e = E1 and to_peer = True]
    user_signal_self [where set_mask = ZX_SOCKET_WRITABLE and clear_mask = 0
      and s = stream_pair and e = E0 and to_peer = False]
  by (simp add: on_zero_handles_def OnPeerZeroHandles_def stream_pair_def
      ZX_USER_SIGNAL_ALL_def sig_defs)

subsection \<open>\<open>WriteControl\<close>\<close>

text \<open>
  C5, as the claim states it, fails: with \<open>HAS_CONTROL\<close>, a length of 3, a peer and an
  empty slot on the peer, a call whose source buffer cannot be read returns
  \<open>INVALID_ARGS\<close> and stores nothing.
\<close>

theorem WriteControl_bad_buffer_counterexample:
  "flags (control_pair E0) AND ZX_SOCKET_HAS_CONTROL \<noteq> 0 \<and> (3 :: size_t) \<le> kControlMsgSize \<and>
   other (control_pair E0) \<and> control_msg_len (control_pair E1) = 0 \<and>
   WriteControl control_pair E0 (user_in_ptr []) 3 = (ZX_ERR_INVALID_ARGS, control_pair)"
  by (simp add: WriteControl_def WriteControlSelf_def control_pair_def copy_array_from_user_def
      kControlMsgSize_def flag_defs)

text \<open>
  C5, amended: \<open>WriteControl(src, len)\<close> returns \<open>BAD_STATE\<close> without \<open>HAS_CONTROL\<close>;
  else \<open>INVALID_ARGS\<close> when \<open>len\<close> is 0; else \<open>OUT_OF_RANGE\<close> when \<open>len\<close> exceeds
  \<open>kControlMsgSize\<close>; else \<open>PEER_CLOSED\<close> when the peer is null; else \<open>SHOULD_WAIT\<close> when
  the peer's slot is occupied; else \<open>INVALID_ARGS\<close>, with no change, when the copy
  from the caller's buffer fails; otherwise it returns \<open>OK\<close>, the peer's slot holds the
  \<open>len\<close> bytes with length \<open>len\<close>, \<open>CONTROL_READABLE\<close> is set on the peer and
  \<open>CONTROL_WRITABLE\<close> is clear on this endpoint. The last update goes through the
  peer's reference to this endpoint, which is non-null whenever this endpoint's
  reference to the peer is, in every pair reached from \<open>Create\<close> (\<open>Create_linked\<close>,
  \<open>run_keeps_linked\<close>).
\<close>

theorem WriteControl_checks:
  "(flags (s e) AND ZX_SOCKET_HAS_CONTROL = 0 \<longrightarrow>
      WriteControl s e src len = (ZX_ERR_BAD_STATE, s)) \<and>
   (flags (s e) AND ZX_SOCKET_HAS_CONTROL \<noteq> 0 \<and> len = 0 \<longrightarrow>
      WriteControl s e src len = (ZX_ERR_INVALID_ARGS, s)) \<and>
   (flags (s e) AND ZX_SOCKET_HAS_CONTROL \<noteq> 0 \<and> len \<noteq> 0 \<and> kControlMsgSize < len \<longrightarrow>
      WriteControl s e src len = (ZX_ERR_OUT_OF_RANGE, s)) \<and>
   (flags (s e) AND ZX_SOCKET_HAS_CONTROL \<noteq> 0 \<and> len \<noteq> 0 \<and> len \<le> kControlMsgSize \<and>
    \<not> other (s e) \<longrightarrow>
      WriteControl s e src len = (ZX_ERR_PEER_CLOSED, s)) \<and>
   (flags (s e) AND ZX_SOCKET_HAS_CONTROL \<noteq> 0 \<and> len \<noteq> 0 \<and> len \<le> kControlMsgSize \<and>
    other (s e) \<and> control_msg_len (s (peer e)) \<noteq> 0 \<longrightarrow>
      WriteControl s e src len = (ZX_ERR_SHOULD_WAIT, s)) \<and>
   (flags (s e) AND ZX_SOCKET_HAS_CONTROL \<noteq> 0 \<and> len \<noteq> 0 \<and> len \<le> kControlMsgSize \<and>
    other (s e) \<and> control_msg_len (s (peer e)) = 0 \<and>
    fst (copy_array_from_user src (unat len)) \<noteq> ZX_OK \<longrightarrow>
      WriteControl s e src len = (ZX_ERR_INVALID_ARGS, s)) \<and>
   (flags (s e) AND ZX_SOCKET_HAS_CONTROL \<noteq> 0 \<and> len \<noteq> 0 \<and> len \<le> kControlMsgSize \<and>
    other (s e) \<and> control_msg_len (s (peer e)) = 0 \<and>
    fst (copy_array_from_user src (unat len)) = ZX_OK \<longrightarrow>
      (case WriteControl s e src len of
         (status, s') \<Rightarrow>
           status = ZX_OK \<and>
           control_msg (s' (peer e)) =
             take (unat len) (in_mem src) @ drop (unat len) (control_msg (s (peer e))) \<and>
           control_msg_len (s' (peer e)) = ucast len \<and>
           unat (control_msg_len (s' (peer e))) = unat len \<and>
           signals (s' (peer e)) AND ZX_SOCKET_CONTROL_READABLE \<noteq> 0 \<and>
           (other (s (peer e)) \<longrightarrow> signals (s' e) AND ZX_SOCKET_CONTROL_WRITABLE = 0)))"
proof -
  have ok: "copy_array_from_user src (unat len) = (ZX_OK, take (unat len) (in_mem src))"
    if "fst (copy_array_from_user src (unat len)) = ZX_OK"
    using that by (simp add: copy_array_from_user_def split: if_splits)
  show ?thesis
    by (auto simp add: WriteControl_def WriteControlSelf_def Let_def case_prod_beta ok
        unat_ucast_control_len test_sigs bit_sigs bit_simps not_less)
qed

theorem WriteControl_checks_witness:
  "WriteControl stream_pair E0 (user_in_ptr [1, 2, 3]) 3 = (ZX_ERR_BAD_STATE, stream_pair) \<and>
   WriteControl control_pair E0 (user_in_ptr [1, 2, 3]) 0 = (ZX_ERR_INVALID_ARGS, control_pair) \<and>
   WriteControl control_pair E0 (user_in_ptr [1, 2, 3]) 1025 = (ZX_ERR_OUT_OF_RANGE, control_pair) \<and>
   WriteControl (on_zero_handles control_pair E0) E1 (user_in_ptr [1, 2, 3]) 3 =
     (ZX_ERR_PEER_CLOSED, on_zero_handles control_pair E0) \<and>
   WriteControl ctl_sent E0 (user_in_ptr [4, 5]) 2 = (ZX_ERR_SHOULD_WAIT, ctl_sent) \<and>
   WriteControl control_pair E0 (user_in_ptr []) 3 = (ZX_ERR_INVALID_ARGS, control_pair) \<and>
   (case WriteControl control_pair E0 (user_in_ptr [1, 2, 3]) 3 of
      (status, s') \<Rightarrow>
        status = ZX_OK \<and> take 3 (control_msg (s' E1)) = [1, 2, 3] \<and>
        control_msg_len (s' E1) = 3 \<and>
        signals (s' E1) AND ZX_SOCKET_CONTROL_READABLE \<noteq> 0 \<and>
        signals (s' E0) AND ZX_SOCKET_CONTROL_WRITABLE = 0)"
  using WriteControl_checks [of stream_pair E0 "user_in_ptr [1, 2, 3]" 3]
    WriteControl_checks [of control_pair E0 "user_in_ptr [1, 2, 3]" 0]
    WriteControl_checks [of control_pair E0 "user_in_ptr [1, 2, 3]" 1025]
    WriteControl_checks [of "on_zero_handles control_pair E0" E1 "user_in_ptr [1, 2, 3]" 3]
    WriteControl_checks [of ctl_sent E0 "user_in_ptr [4, 5]" 2]
    WriteControl_checks [of control_pair E0 "user_in_ptr []" 3]
    WriteControl_checks [of control_pair E0 "user_in_ptr [1, 2, 3]" 3]
  by (simp add: ctl_sent_E1 ctl_sent_E0 stream_pair_def control_pair_def copy_array_from_user_def
      on_zero_handles_def OnPeerZeroHandles_def kControlMsgSize_def flag_defs
      split: prod.splits)

subsection \<open>The control channel and the data channel\<close>

text \<open>What each of the four methods leaves alone, on either side \<open>x\<close>.\<close>

lemma WriteControl_frame:
  "data (snd (WriteControl s e src len) x) = data (s x) \<and>
   read_disabled (snd (WriteControl s e src len) x) = read_disabled (s x) \<and>
   signals (snd (WriteControl s e src len) x) AND
     (ZX_SOCKET_READABLE OR ZX_SOCKET_WRITABLE OR ZX_SOCKET_READ_DISABLED OR
      ZX_SOCKET_WRITE_DISABLED) =
   signals (s x) AND
     (ZX_SOCKET_READABLE OR ZX_SOCKET_WRITABLE OR ZX_SOCKET_READ_DISABLED OR
      ZX_SOCKET_WRITE_DISABLED)"
  by (simp add: WriteControl_def WriteControlSelf_def Let_def case_prod_beta masked
      control_masks_avoid_data)

lemma ReadControl_frame:
  "data (fst (snd (ReadControl s e dst len)) x) = data (s x) \<and>
   read_disabled (fst (snd (ReadControl s e dst len)) x) = read_disabled (s x) \<and>
   signals (fst (snd (ReadControl s e dst len)) x) AND
     (ZX_SOCKET_READABLE OR ZX_SOCKET_WRITABLE OR ZX_SOCKET_READ_DISABLED OR
      ZX_SOCKET_WRITE_DISABLED) =
   signals (s x) AND
     (ZX_SOCKET_READABLE OR ZX_SOCKET_WRITABLE OR ZX_SOCKET_READ_DISABLED OR
      ZX_SOCKET_WRITE_DISABLED)"
  by (simp add: ReadControl_def Let_def case_prod_beta masked control_masks_avoid_data)

lemma WriteSelf_frame:
  "control_msg (fst (snd (WriteSelf mb s e src len)) x) = control_msg (s x) \<and>
   control_msg_len (fst (snd (WriteSelf mb s e src len)) x) = control_msg_len (s x) \<and>
   signals (fst (snd (WriteSelf mb s e src len)) x) AND
     (ZX_SOCKET_CONTROL_READABLE OR ZX_SOCKET_CONTROL_WRITABLE) =
   signals (s x) AND (ZX_SOCKET_CONTROL_READABLE OR ZX_SOCKET_CONTROL_WRITABLE)"
  by (simp add: WriteSelf_def Let_def case_prod_beta masked data_masks_avoid_control)

lemma Write_frame:
  "control_msg (fst (snd (Write mb s e src len)) x) = control_msg (s x) \<and>
   control_msg_len (fst (snd (Write mb s e src len)) x) = control_msg_len (s x) \<and>
   signals (fst (snd (Write mb s e src len)) x) AND
     (ZX_SOCKET_CONTROL_READABLE OR ZX_SOCKET_CONTROL_WRITABLE) =
   signals (s x) AND (ZX_SOCKET_CONTROL_READABLE OR ZX_SOCKET_CONTROL_WRITABLE)"
  by (simp add: Write_def WriteSelf_frame)

lemma Read_frame:
  "control_msg (fst (snd (Read mb s e dst len)) x) = control_msg (s x) \<and>
   control_msg_len (fst (snd (Read mb s e dst len)) x) = control_msg_len (s x) \<and>
   signals (fst (snd (Read mb s e dst len)) x) AND
     (ZX_SOCKET_CONTROL_READABLE OR ZX_SOCKET_CONTROL_WRITABLE) =
   signals (s x) AND (ZX_SOCKET_CONTROL_READABLE OR ZX_SOCKET_CONTROL_WRITABLE)"
  by (simp add: Read_def Let_def case_prod_beta masked data_masks_avoid_control)

text \<open>
  C7: \<open>WriteControl\<close> and \<open>ReadControl\<close> leave the inbound pipeline of both endpoints
  and the signals \<open>READABLE\<close>, \<open>WRITABLE\<close>, \<open>READ_DISABLED\<close>, \<open>WRITE_DISABLED\<close> of both
  endpoints as they were; \<open>Write\<close> and \<open>Read\<close> leave both control slots (buffer and
  length) and the signals \<open>CONTROL_READABLE\<close> and \<open>CONTROL_WRITABLE\<close> of both
  endpoints as they were. This holds for every call, failed or not, and for every
  pipeline.
\<close>

theorem control_orthogonal:
  "(\<forall>x. data (snd (WriteControl s e src len) x) = data (s x) \<and>
        signals (snd (WriteControl s e src len) x) AND
          (ZX_SOCKET_READABLE OR ZX_SOCKET_WRITABLE OR ZX_SOCKET_READ_DISABLED OR
           ZX_SOCKET_WRITE_DISABLED) =
        signals (s x) AND
          (ZX_SOCKET_READABLE OR ZX_SOCKET_WRITABLE OR ZX_SOCKET_READ_DISABLED OR
           ZX_SOCKET_WRITE_DISABLED)) \<and>
   (\<forall>x. data (fst (snd (ReadControl s e dst len)) x) = data (s x) \<and>
        signals (fst (snd (ReadControl s e dst len)) x) AND
          (ZX_SOCKET_READABLE OR ZX_SOCKET_WRITABLE OR ZX_SOCKET_READ_DISABLED OR
           ZX_SOCKET_WRITE_DISABLED) =
        signals (s x) AND
          (ZX_SOCKET_READABLE OR ZX_SOCKET_WRITABLE OR ZX_SOCKET_READ_DISABLED OR
           ZX_SOCKET_WRITE_DISABLED)) \<and>
   (\<forall>x. control_msg (fst (snd (Write mb s e src len)) x) = control_msg (s x) \<and>
        control_msg_len (fst (snd (Write mb s e src len)) x) = control_msg_len (s x) \<and>
        signals (fst (snd (Write mb s e src len)) x) AND
          (ZX_SOCKET_CONTROL_READABLE OR ZX_SOCKET_CONTROL_WRITABLE) =
        signals (s x) AND (ZX_SOCKET_CONTROL_READABLE OR ZX_SOCKET_CONTROL_WRITABLE)) \<and>
   (\<forall>x. control_msg (fst (snd (Read mb s e dst len)) x) = control_msg (s x) \<and>
        control_msg_len (fst (snd (Read mb s e dst len)) x) = control_msg_len (s x) \<and>
        signals (fst (snd (Read mb s e dst len)) x) AND
          (ZX_SOCKET_CONTROL_READABLE OR ZX_SOCKET_CONTROL_WRITABLE) =
        signals (s x) AND (ZX_SOCKET_CONTROL_READABLE OR ZX_SOCKET_CONTROL_WRITABLE))"
  by (simp add: WriteControl_frame ReadControl_frame Write_frame Read_frame)

subsection \<open>\<open>PEER_CLOSED\<close> is latched\<close>

text \<open>No method clears bit 2 of the signal word, on either side \<open>x\<close>.\<close>

lemma Write_keeps_PEER_CLOSED:
  "bit (signals (s x)) 2 \<Longrightarrow> bit (signals (fst (snd (Write mb s e src len)) x)) 2"
  by (auto simp add: Write_def WriteSelf_def Let_def case_prod_beta bit_simps bit_sigs)

lemma Read_keeps_PEER_CLOSED:
  "bit (signals (s x)) 2 \<Longrightarrow> bit (signals (fst (snd (Read mb s e dst len)) x)) 2"
  by (auto simp add: Read_def Let_def case_prod_beta bit_simps bit_sigs)

lemma WriteControl_keeps_PEER_CLOSED:
  "bit (signals (s x)) 2 \<Longrightarrow> bit (signals (snd (WriteControl s e src len) x)) 2"
  by (auto simp add: WriteControl_def WriteControlSelf_def Let_def case_prod_beta bit_simps bit_sigs)

lemma ReadControl_keeps_PEER_CLOSED:
  "bit (signals (s x)) 2 \<Longrightarrow> bit (signals (fst (snd (ReadControl s e dst len)) x)) 2"
  by (auto simp add: ReadControl_def Let_def case_prod_beta bit_simps bit_sigs)

lemma Shutdown_keeps_PEER_CLOSED:
  "bit (signals (s x)) 2 \<Longrightarrow> bit (signals (snd (Shutdown mb s e how) x)) 2"
  by (auto simp add: Shutdown_def ShutdownOther_def Let_def bit_simps bit_sigs)

lemma Share_keeps_PEER_CLOSED:
  "bit (signals (s x)) 2 \<Longrightarrow> bit (signals (snd (Share s e h) x)) 2"
  by (auto simp add: Share_def ShareSelf_def Let_def bit_simps bit_sigs)

lemma Accept_keeps_PEER_CLOSED:
  "bit (signals (s x)) 2 \<Longrightarrow> bit (signals (fst (snd (Accept s e)) x)) 2"
  by (auto simp add: Accept_def Let_def bit_simps bit_sigs)

lemma user_signal_keeps_PEER_CLOSED:
  "bit (signals (s x)) 2 \<Longrightarrow> bit (signals (snd (user_signal s e clear_mask set_mask to_peer) x)) 2"
  by (auto simp add: user_signal_def UserSignalSelf_def bit_simps user_mask_low_bits)

lemma on_zero_handles_keeps_PEER_CLOSED:
  "bit (signals (s x)) 2 \<Longrightarrow> bit (signals (on_zero_handles s e x)) 2"
  by (auto simp add: on_zero_handles_def OnPeerZeroHandles_def Let_def bit_simps bit_sigs)

lemma step_keeps_PEER_CLOSED:
  "bit (signals (s x)) 2 \<Longrightarrow> bit (signals (step mb s c x)) 2"
proof (cases c)
  case (Pair e call)
  assume "bit (signals (s x)) 2"
  then show ?thesis
    unfolding Pair
    by (cases call)
      (simp_all add: Write_keeps_PEER_CLOSED Read_keeps_PEER_CLOSED
        WriteControl_keeps_PEER_CLOSED ReadControl_keeps_PEER_CLOSED Shutdown_keeps_PEER_CLOSED
        Share_keeps_PEER_CLOSED Accept_keeps_PEER_CLOSED user_signal_keeps_PEER_CLOSED
        on_zero_handles_keeps_PEER_CLOSED)
qed

lemma run_keeps_PEER_CLOSED:
  "bit (signals (s x)) 2 \<Longrightarrow> bit (signals (run mb s cs x)) 2"
  unfolding run_def
  by (induction cs arbitrary: s) (simp_all add: step_keeps_PEER_CLOSED)

text \<open>
  C8: \<open>OnPeerZeroHandles\<close> sets \<open>PEER_CLOSED\<close> and clears \<open>WRITABLE\<close> (so the endpoint
  has both after its peer's \<open>on_zero_handles\<close>), and once \<open>PEER_CLOSED\<close> is set on an
  endpoint it is set after every sequence of calls, of any method with any arguments on
  either endpoint.
\<close>

theorem PEER_CLOSED_latched:
  "signals (OnPeerZeroHandles s e e) AND ZX_SOCKET_PEER_CLOSED \<noteq> 0 \<and>
   signals (OnPeerZeroHandles s e e) AND ZX_SOCKET_WRITABLE = 0 \<and>
   (other (s (peer e)) \<longrightarrow>
      signals (on_zero_handles s (peer e) e) AND ZX_SOCKET_PEER_CLOSED \<noteq> 0 \<and>
      signals (on_zero_handles s (peer e) e) AND ZX_SOCKET_WRITABLE = 0) \<and>
   (signals (s e) AND ZX_SOCKET_PEER_CLOSED \<noteq> 0 \<longrightarrow>
      signals (run mb s cs e) AND ZX_SOCKET_PEER_CLOSED \<noteq> 0)"
proof -
  have "ZX_SOCKET_PEER_CLOSED \<noteq> 0"
    by (simp add: ZX_SOCKET_PEER_CLOSED_def)
  then show ?thesis
    by (simp add: test_sigs bit_sigs bit_simps OnPeerZeroHandles_def on_zero_handles_def
        run_keeps_PEER_CLOSED)
qed

text \<open>
  \<open>E1\<close> after \<open>E0\<close> has dropped its handles, and then a user signal call that names all
  user bits, a shutdown of both directions, a write, a read and its own last handle.
\<close>

theorem PEER_CLOSED_latched_witness:
  "signals (on_zero_handles stream_pair E0 E1) AND ZX_SOCKET_PEER_CLOSED \<noteq> 0 \<and>
   signals (on_zero_handles stream_pair E0 E1) AND ZX_SOCKET_WRITABLE = 0 \<and>
   signals (run spec_chain (on_zero_handles stream_pair E0)
              [(E1, CallUserSignal 0xff000000 0 False), (E1, CallShutdown 3),
               (E1, CallWrite (user_in_ptr [1]) 1), (E1, CallRead (user_out_ptr False 1) 1),
               (E1, CallZeroHandles)] E1)
     AND ZX_SOCKET_PEER_CLOSED \<noteq> 0"
  using PEER_CLOSED_latched [of stream_pair E1 spec_chain
      "[(E1, CallUserSignal 0xff000000 0 False), (E1, CallShutdown 3),
        (E1, CallWrite (user_in_ptr [1]) 1), (E1, CallRead (user_out_ptr False 1) 1),
        (E1, CallZeroHandles)]"]
    PEER_CLOSED_latched [of "on_zero_handles stream_pair E0" E1 spec_chain
      "[(E1, CallUserSignal 0xff000000 0 False), (E1, CallShutdown 3),
        (E1, CallWrite (user_in_ptr [1]) 1), (E1, CallRead (user_out_ptr False 1) 1),
        (E1, CallZeroHandles)]"]
  by (simp add: stream_pair_def)

subsection \<open>\<open>Shutdown\<close> twice\<close>

text \<open>Applying the same masks twice is applying them once.\<close>

lemma update_idem:
  "(((x AND NOT c) OR t) AND NOT c) OR t = (x AND NOT c) OR t" for x :: "32 word"
  by (rule bit_eqI) (auto simp add: bit_simps)

lemma UpdateState_idem [simp]:
  "UpdateState c t (UpdateState c t sd) = UpdateState c t sd"
  by (simp add: UpdateState_def update_idem)

lemma UpdateState_read_disabled:
  "(UpdateState c t sd)\<lparr>read_disabled := b\<rparr> = UpdateState c t (sd\<lparr>read_disabled := b\<rparr>)"
  by (simp add: UpdateState_def)

lemma is_empty_UpdateState [simp]: "is_empty mb (UpdateState c t sd) = is_empty mb sd"
  by (simp add: is_empty_def)

lemma is_empty_read_disabled [simp]: "is_empty mb (sd\<lparr>read_disabled := b\<rparr>) = is_empty mb sd"
  by (simp add: is_empty_def)

lemma ShutdownOther_idem:
  "ShutdownOther mb (snd (ShutdownOther mb s e how)) e how = ShutdownOther mb s e how"
  by (simp add: ShutdownOther_def Let_def UpdateState_read_disabled)

text \<open>
  C3: for every mode \<open>how\<close> and every pair, a second \<open>Shutdown(how)\<close> right after the
  first returns what the first returned and leaves both endpoints as the first left
  them; and a \<open>Shutdown(how)\<close> whose requested subset of \<open>READ_DISABLED\<close>,
  \<open>WRITE_DISABLED\<close> is the subset already present in the signals returns \<open>OK\<close> and
  changes neither endpoint (the peer is not called).
\<close>

theorem Shutdown_idempotent:
  "Shutdown mb (snd (Shutdown mb s e how)) e how = Shutdown mb s e how \<and>
   ((if how AND ZX_SOCKET_SHUTDOWN_READ \<noteq> 0 then ZX_SOCKET_READ_DISABLED else 0) OR
    (if how AND ZX_SOCKET_SHUTDOWN_WRITE \<noteq> 0 then ZX_SOCKET_WRITE_DISABLED else 0) =
    signals (s e) AND (ZX_SOCKET_READ_DISABLED OR ZX_SOCKET_WRITE_DISABLED) \<longrightarrow>
      Shutdown mb s e how = (ZX_OK, s))"
proof
  show "Shutdown mb (snd (Shutdown mb s e how)) e how = Shutdown mb s e how"
    by (simp add: Shutdown_def ShutdownOther_def Let_def UpdateState_read_disabled
        GetSignalsState_def fun_eq_iff)
  show "(if how AND ZX_SOCKET_SHUTDOWN_READ \<noteq> 0 then ZX_SOCKET_READ_DISABLED else 0) OR
    (if how AND ZX_SOCKET_SHUTDOWN_WRITE \<noteq> 0 then ZX_SOCKET_WRITE_DISABLED else 0) =
    signals (s e) AND (ZX_SOCKET_READ_DISABLED OR ZX_SOCKET_WRITE_DISABLED) \<longrightarrow>
      Shutdown mb s e how = (ZX_OK, s)"
    by (simp add: Shutdown_def Let_def GetSignalsState_def)
qed

text \<open>\<open>Shutdown(SHUTDOWN_WRITE)\<close> on the stream pair, and then once more.\<close>

lemma Shutdown_stream_pair:
  "Shutdown spec_chain stream_pair E0 ZX_SOCKET_SHUTDOWN_WRITE = (ZX_OK, wd_pair)"
  by (simp add: Shutdown_def ShutdownOther_def wd_pair_def stream_pair_def
      GetSignalsState_def is_empty_def spec_chain_def UpdateState_def sig_defs flag_defs Let_def
      fun_upd_twist)

theorem Shutdown_idempotent_witness:
  "Shutdown spec_chain stream_pair E0 ZX_SOCKET_SHUTDOWN_WRITE = (ZX_OK, wd_pair) \<and>
   signals (wd_pair E0) AND (ZX_SOCKET_READ_DISABLED OR ZX_SOCKET_WRITE_DISABLED) =
     ZX_SOCKET_WRITE_DISABLED \<and>
   Shutdown spec_chain wd_pair E0 ZX_SOCKET_SHUTDOWN_WRITE = (ZX_OK, wd_pair)"
  using Shutdown_idempotent [of spec_chain stream_pair E0 ZX_SOCKET_SHUTDOWN_WRITE]
    Shutdown_idempotent [of spec_chain wd_pair E0 ZX_SOCKET_SHUTDOWN_WRITE]
  by (simp add: Shutdown_stream_pair) (simp add: wd_pair_def stream_pair_def sig_defs flag_defs)

subsection \<open>\<open>WRITABLE\<close> and \<open>WRITE_DISABLED\<close>\<close>

text \<open>
  The three calls of the trace below: the write that fills the inbound buffer of \<open>E1\<close>
  (and so clears \<open>WRITABLE\<close> on \<open>E0\<close>), the shutdown of writing on \<open>E0\<close>, and a read of
  one byte on \<open>E1\<close>.
\<close>

lemma after_full_write:
  "Write spec_chain stream_pair E0 full_write 262144 =
     (ZX_OK,
      stream_pair
        (E1 := (stream_pair E1)\<lparr>signals := ZX_SOCKET_WRITABLE OR ZX_SOCKET_READABLE,
                                  data := \<lparr>bytes = replicate 262144 0, frames = []\<rparr>\<rparr>,
         E0 := (stream_pair E0)\<lparr>signals := 0\<rparr>),
      Some 262144)"
  by (simp add: Write_def WriteSelf_def GetSignalsState_def is_full_def is_empty_def
      spec_chain_def chain_WriteStream_def chain_used_def copy_array_from_user_def
      full_write_def BUF_MAX_def stream_pair_def UpdateState_def sig_defs flag_defs Let_def)

lemma Write_fills: "Write spec_chain stream_pair E0 full_write 262144 = (ZX_OK, full_pair, Some 262144)"
  by (simp add: after_full_write full_pair_def)

lemma Shutdown_full_pair:
  "Shutdown spec_chain full_pair E0 ZX_SOCKET_SHUTDOWN_WRITE = (ZX_OK, full_wd_pair)"
  by (simp add: Shutdown_def ShutdownOther_def full_wd_pair_def full_pair_def stream_pair_def
      GetSignalsState_def is_empty_def spec_chain_def UpdateState_def sig_defs flag_defs Let_def)

lemma Read_full_wd_pair:
  "Read spec_chain full_wd_pair E1 (user_out_ptr False 8) 1 = (ZX_OK, drained_pair, Some 1, [0])"
  by (simp add: Read_def drained_pair_def full_wd_pair_def full_pair_def stream_pair_def
      is_full_def is_empty_def spec_chain_def chain_Read_def chain_used_def BUF_MAX_def
      UpdateState_def sig_defs flag_defs Let_def)

text \<open>
  C1 says that an endpoint with \<open>WRITABLE\<close> set has \<open>WRITE_DISABLED\<close> clear in every
  state reached by \<open>Write\<close>, \<open>Read\<close> and \<open>Shutdown\<close>. The code does not keep this: on the
  pair that \<open>Create(0)\<close> returns, after \<open>E0\<close> has filled the buffer of \<open>E1\<close> and shut
  down writing, a read on \<open>E1\<close> finds \<open>was_full\<close> and sets \<open>WRITABLE\<close> on \<open>E0\<close>, which
  still has \<open>WRITE_DISABLED\<close>. \<open>Shutdown\<close> and \<open>ShutdownOther\<close> clear \<open>WRITABLE\<close> whenever
  they set \<open>WRITE_DISABLED\<close>; \<open>Read\<close> does not look at it.
\<close>

theorem WRITABLE_with_WRITE_DISABLED:
  "Create spec_chain True 0 = (ZX_OK, Some stream_pair) \<and>
   (let s = run spec_chain stream_pair
              [(E0, CallWrite full_write 262144),
               (E0, CallShutdown ZX_SOCKET_SHUTDOWN_WRITE),
               (E1, CallRead (user_out_ptr False 8) 1)]
    in other (s E0) \<and>
       signals (s E0) AND ZX_SOCKET_WRITE_DISABLED \<noteq> 0 \<and>
       signals (s E0) AND ZX_SOCKET_WRITABLE \<noteq> 0)"
proof -
  have "run spec_chain stream_pair
          [(E0, CallWrite full_write 262144),
           (E0, CallShutdown ZX_SOCKET_SHUTDOWN_WRITE),
           (E1, CallRead (user_out_ptr False 8) 1)] = drained_pair"
    by (simp add: run_def Write_fills Shutdown_full_pair Read_full_wd_pair)
  moreover have "other (drained_pair E0)"
    by (simp add: drained_pair_def full_wd_pair_def full_pair_def stream_pair_def)
  moreover have "signals (drained_pair E0) = ZX_SOCKET_WRITE_DISABLED OR ZX_SOCKET_WRITABLE"
    by (simp add: drained_pair_def)
  ultimately show ?thesis
    by (simp add: Create_stream_pair sig_defs)
qed

end
